theory Spec2Isabelle
  imports Main
begin

section \<open>Python values that cross the wire\<close>

text \<open>
  \<^verbatim>\<open>scripts/check-node-pairs.py\<close> handles what \<^verbatim>\<open>json.loads\<close> returns: \<^verbatim>\<open>None\<close>,
  booleans, integers, strings, lists and string-keyed dictionaries. A dictionary is an
  association list read with \<open>map_of\<close>. A \<open>char\<close> stands for one character of a Python
  \<^verbatim>\<open>str\<close>. Floating-point numbers are left out.
\<close>

datatype json =
    JNull
  | JBool bool
  | JInt int
  | JStr string
  | JArr "json list"
  | JObj "(string \<times> json) list"

text \<open>An exception is its class and the text \<^verbatim>\<open>str(e)\<close> gives.\<close>

datatype exc_class =
    JSONDecodeError | KeyError | AttributeError | TypeError | UnicodeDecodeError
  | OtherException

datatype pyexc = Raised (exc_class: exc_class) (str_exc: string)

text \<open>Truth value of an object, as \<^verbatim>\<open>if x:\<close> tests it.\<close>

fun truthy :: "json \<Rightarrow> bool" where
  "truthy JNull = False"
| "truthy (JBool b) = b"
| "truthy (JInt i) = (i \<noteq> 0)"
| "truthy (JStr s) = (s \<noteq> [])"
| "truthy (JArr xs) = (xs \<noteq> [])"
| "truthy (JObj kvs) = (kvs \<noteq> [])"

fun type_name :: "json \<Rightarrow> string" where
  "type_name JNull = ''NoneType''"
| "type_name (JBool b) = ''bool''"
| "type_name (JInt i) = ''int''"
| "type_name (JStr s) = ''str''"
| "type_name (JArr xs) = ''list''"
| "type_name (JObj kvs) = ''dict''"

definition quoted :: "string \<Rightarrow> string" where
  "quoted s = [CHR 0x27] @ s @ [CHR 0x27]"

text \<open>\<^verbatim>\<open>d.get(k, default)\<close> on a dictionary.\<close>

definition dict_get :: "(string \<times> json) list \<Rightarrow> string \<Rightarrow> json \<Rightarrow> json" where
  "dict_get d k dflt = (case map_of d k of Some v \<Rightarrow> v | None \<Rightarrow> dflt)"

text \<open>
  \<^verbatim>\<open>x.get(k, default)\<close> on any object: only a dictionary has the method, every other
  value raises \<^verbatim>\<open>AttributeError\<close>.
\<close>

definition no_get :: "json \<Rightarrow> pyexc" where
  "no_get x = Raised AttributeError
     (quoted (type_name x) @ '' object has no attribute '' @ quoted ''get'')"

definition py_get :: "json \<Rightarrow> string \<Rightarrow> json \<Rightarrow> pyexc + json" where
  "py_get x k dflt = (case x of JObj d \<Rightarrow> Inr (dict_get d k dflt) | _ \<Rightarrow> Inl (no_get x))"

section \<open>The session of \<^verbatim>\<open>check_node_pairs\<close>\<close>

text \<open>
  The module \<^verbatim>\<open>json\<close> is not part of the repository: its two functions are parameters.
  \<open>loads\<close> returns the parsed value or the exception it raises.
\<close>

record json_module =
  loads :: "string \<Rightarrow> pyexc + json"
  dumps :: "json \<Rightarrow> string"

text \<open>
  What the closure of \<^verbatim>\<open>on_message\<close> captures and never assigns: the two identifiers
  drawn from \<^verbatim>\<open>uuid.uuid4()\<close> (lines 54-55) and the token.
\<close>

record config =
  connect_id :: string
  rpc_id :: string
  token :: string

text \<open>
  Lines 54-55: the parameter gives the strings that successive calls of
  \<^verbatim>\<open>str(uuid.uuid4())\<close> return.
\<close>

definition new_config :: "(nat \<Rightarrow> string) \<Rightarrow> string \<Rightarrow> config" where
  "new_config uuid4 tok = \<lparr>connect_id = uuid4 0, rpc_id = uuid4 1, token = tok\<rparr>"

text \<open>The three values the variable \<^verbatim>\<open>phase\<close> takes.\<close>

datatype phase = Awaiting_challenge | Awaiting_hello | Awaiting_response

text \<open>The \<^verbatim>\<open>nonlocal\<close> variables (lines 58-61); \<^verbatim>\<open>error_msg = None\<close> is \<open>JNull\<close>.\<close>

record session =
  phase :: phase
  response_received :: bool
  result :: json
  error_msg :: json

text \<open>Calls on the transport object \<^verbatim>\<open>ws\<close> made by the handler, in order.\<close>

datatype action = Send string | Close

text \<open>
  The object \<^verbatim>\<open>ws\<close> belongs to the library \<^verbatim>\<open>websocket\<close>: what its methods do is a
  parameter. \<^verbatim>\<open>ws.send(text)\<close> and \<^verbatim>\<open>ws.close()\<close> return normally (\<open>None\<close>) or raise.
\<close>

record transport =
  ws_send :: "string \<Rightarrow> pyexc option"
  ws_close :: "pyexc option"

definition default_result :: json where
  "default_result = JObj [(''pending'', JArr []), (''paired'', JArr [])]"

definition initial_session :: session where
  "initial_session =
     \<lparr>phase = Awaiting_challenge, response_received = False,
      result = default_result, error_msg = JNull\<rparr>"

text \<open>Lines 77-95.\<close>

definition connect_req :: "config \<Rightarrow> json" where
  "connect_req cfg =
     JObj [(''type'', JStr ''req''),
           (''id'', JStr (connect_id cfg)),
           (''method'', JStr ''connect''),
           (''params'', JObj
              [(''minProtocol'', JInt 3),
               (''maxProtocol'', JInt 3),
               (''client'', JObj
                  [(''id'', JStr ''check-node-pairs''),
                   (''version'', JStr ''1.0.0''),
                   (''platform'', JStr ''cli''),
                   (''mode'', JStr ''backend'')]),
               (''role'', JStr ''operator''),
               (''scopes'', JArr
                  [JStr ''operator.read'', JStr ''operator.write'',
                   JStr ''operator.pairing'', JStr ''operator.admin'']),
               (''caps'', JArr []),
               (''auth'', JObj [(''token'', JStr (token cfg))])])]"

text \<open>Lines 104-109.\<close>

definition rpc_req :: "config \<Rightarrow> json" where
  "rpc_req cfg =
     JObj [(''type'', JStr ''req''),
           (''id'', JStr (rpc_id cfg)),
           (''method'', JStr ''node.pair.list''),
           (''params'', JObj [])]"

text \<open>
  Lines 67-69: the raw message is parsed; a value that is no dictionary, or a
  dictionary without the key \<^verbatim>\<open>type\<close>, makes the handler return at once (\<open>None\<close> here).
\<close>

definition parse_frame :: "json_module \<Rightarrow> string \<Rightarrow> pyexc + (string \<times> json) list option" where
  "parse_frame js message =
     (case loads js message of
        Inl e \<Rightarrow> Inl e
      | Inr (JObj d) \<Rightarrow> (if map_of d ''type'' = None then Inr None else Inr (Some d))
      | Inr _ \<Rightarrow> Inr None)"

text \<open>
  Lines 113 and 123: \<^verbatim>\<open>frame.get("error", {}).get("message", fallback)\<close>.
\<close>

definition error_message :: "(string \<times> json) list \<Rightarrow> string \<Rightarrow> pyexc + json" where
  "error_message d fallback = py_get (dict_get d ''error'' (JObj [])) ''message'' (JStr fallback)"

text \<open>
  Lines 71-124, the three phases, on a frame that has the key \<^verbatim>\<open>type\<close>. The value is
  the session as the assignments left it and the calls made on \<^verbatim>\<open>ws\<close>, together with
  the exception that ended the body, if one did. \<open>error_message\<close> raises before anything
  is assigned; \<^verbatim>\<open>ws.send\<close> and \<^verbatim>\<open>ws.close\<close> are called after the assignments (lines 96-97,
  110-111, 113-114, 120-124).
\<close>

definition dispatch :: "transport \<Rightarrow> json_module \<Rightarrow> config \<Rightarrow> session
    \<Rightarrow> (string \<times> json) list \<Rightarrow> (session \<times> action list) \<times> pyexc option" where
  "dispatch ws js cfg st d =
     (let frame_type = dict_get d ''type'' JNull in
      case phase st of
        Awaiting_challenge \<Rightarrow>
          (if frame_type = JStr ''event''
              \<and> dict_get d ''event'' JNull = JStr ''connect.challenge''
           then ((st\<lparr>phase := Awaiting_hello\<rparr>, [Send (dumps js (connect_req cfg))]),
                 ws_send ws (dumps js (connect_req cfg)))
           else ((st, []), None))
      | Awaiting_hello \<Rightarrow>
          (if frame_type = JStr ''res'' \<and> dict_get d ''id'' JNull = JStr (connect_id cfg)
           then
             (if truthy (dict_get d ''ok'' JNull)
              then ((st\<lparr>phase := Awaiting_response\<rparr>, [Send (dumps js (rpc_req cfg))]),
                    ws_send ws (dumps js (rpc_req cfg)))
              else
                (case error_message d ''Handshake failed'' of
                   Inl e \<Rightarrow> ((st, []), Some e)
                 | Inr m \<Rightarrow> ((st\<lparr>error_msg := m\<rparr>, [Close]), ws_close ws)))
           else ((st, []), None))
      | Awaiting_response \<Rightarrow>
          (if frame_type = JStr ''res'' \<and> dict_get d ''id'' JNull = JStr (rpc_id cfg)
           then
             (if truthy (dict_get d ''ok'' JNull)
              then ((st\<lparr>result := dict_get d ''payload'' default_result,
                            response_received := True\<rparr>, [Close]), ws_close ws)
              else
                (case error_message d ''RPC error'' of
                   Inl e \<Rightarrow> ((st, []), Some e)
                 | Inr m \<Rightarrow> ((st\<lparr>error_msg := m\<rparr>, [Close]), ws_close ws)))
           else ((st, []), None)))"

text \<open>Lines 67-124: the body of the \<^verbatim>\<open>try\<close> statement.\<close>

definition on_message_try :: "transport \<Rightarrow> json_module \<Rightarrow> config \<Rightarrow> session \<Rightarrow> string
    \<Rightarrow> (session \<times> action list) \<times> pyexc option" where
  "on_message_try ws js cfg st message =
     (case parse_frame js message of
        Inl e \<Rightarrow> ((st, []), Some e)
      | Inr None \<Rightarrow> ((st, []), None)
      | Inr (Some d) \<Rightarrow> dispatch ws js cfg st d)"

text \<open>
  Lines 126-129, the two \<^verbatim>\<open>except\<close> clauses: the first one passes, the second one
  stores \<^verbatim>\<open>str(e)\<close>.
\<close>

definition except_clauses :: "pyexc option \<Rightarrow> session \<Rightarrow> session" where
  "except_clauses raised st =
     (case raised of
        None \<Rightarrow> st
      | Some e \<Rightarrow>
          (if exc_class e = JSONDecodeError \<or> exc_class e = KeyError then st
           else st\<lparr>error_msg := JStr (str_exc e)\<rparr>))"

text \<open>Lines 63-129: \<^verbatim>\<open>on_message\<close>.\<close>

definition on_message :: "transport \<Rightarrow> json_module \<Rightarrow> config \<Rightarrow> session \<Rightarrow> string
    \<Rightarrow> session \<times> action list" where
  "on_message ws js cfg st message =
     (case on_message_try ws js cfg st message of
        ((st', acts), raised) \<Rightarrow> (except_clauses raised st', acts))"

text \<open>Lines 131-133; the argument is \<^verbatim>\<open>str(error)\<close>.\<close>

definition on_error :: "session \<Rightarrow> string \<Rightarrow> session" where
  "on_error st err = st\<lparr>error_msg := JStr err\<rparr>"

text \<open>Lines 135-137.\<close>

definition on_close :: "session \<Rightarrow> session" where
  "on_close st = st\<lparr>response_received := True\<rparr>"

section \<open>The transport loop and the invocation\<close>

text \<open>
  What the transport does between two calls of the handlers: a message arrives, an
  error is reported, or the connection is closed by the peer.
\<close>

datatype ws_event = Message string | Error string | Closed

text \<open>
  Modelled from the spec: \<^verbatim>\<open>WebSocketApp.run_forever\<close> (line 152) belongs to the library
  \<^verbatim>\<open>websocket\<close>. Following the transport contract, the handlers are called in arrival
  order, one at a time; once \<^verbatim>\<open>close()\<close> has been requested no further message is
  delivered, the close notification is given and the call returns; the same happens
  when the peer closes. While neither happened the call keeps waiting: a trace that
  ends before, yields \<open>None\<close>.
\<close>

fun run_forever :: "transport \<Rightarrow> json_module \<Rightarrow> config \<Rightarrow> session \<Rightarrow> ws_event list
    \<Rightarrow> (session \<times> action list) option" where
  "run_forever ws js cfg st [] = None"
| "run_forever ws js cfg st (Message m # evs) =
     (case on_message ws js cfg st m of
        (st', acts) \<Rightarrow>
          if Close \<in> set acts then Some (on_close st', acts)
          else map_option (\<lambda>(s, more). (s, acts @ more)) (run_forever ws js cfg st' evs))"
| "run_forever ws js cfg st (Error e # evs) = run_forever ws js cfg (on_error st e) evs"
| "run_forever ws js cfg st (Closed # evs) = Some (on_close st, [])"

text \<open>
  Lines 53-157 of \<^verbatim>\<open>check_node_pairs\<close>: \<open>Inl m\<close> is \<^verbatim>\<open>raise Exception(m)\<close>, \<open>Inr r\<close> is
  \<^verbatim>\<open>return r\<close>, \<open>None\<close> is a call that never returns.
\<close>

definition check_node_pairs :: "transport \<Rightarrow> json_module \<Rightarrow> config \<Rightarrow> ws_event list
    \<Rightarrow> (json + json) option" where
  "check_node_pairs ws js cfg evs =
     map_option
       (\<lambda>(st, acts). if truthy (error_msg st) then Inl (error_msg st) else Inr (result st))
       (run_forever ws js cfg initial_session evs)"

section \<open>The report\<close>

text \<open>
  Two things \<^verbatim>\<open>print_result\<close> leaves to Python are parameters: the text \<^verbatim>\<open>str(x)\<close> of a
  value that is no string, and \<^verbatim>\<open>datetime.fromtimestamp(ms / 1000).strftime(...)\<close>, which
  computes in floating point and local time and may raise.
\<close>

record py_env =
  py_str :: "json \<Rightarrow> string"
  local_time :: "json \<Rightarrow> pyexc + string"

text \<open>Lines 160-162.\<close>

definition format_timestamp :: "py_env \<Rightarrow> json \<Rightarrow> pyexc + string" where
  "format_timestamp env ms = local_time env ms"

text \<open>A replacement field \<^verbatim>\<open>{x}\<close> of an f-string.\<close>

definition fmt :: "py_env \<Rightarrow> json \<Rightarrow> string" where
  "fmt env x = (case x of JStr s \<Rightarrow> s | _ \<Rightarrow> py_str env x)"

text \<open>Lines 26, 25 and 29.\<close>

definition YELLOW :: string where
  "YELLOW = CHR 0x1B # ''[1;33m''"

definition GREEN :: string where
  "GREEN = CHR 0x1B # ''[0;32m''"

definition NC :: string where
  "NC = CHR 0x1B # ''[0m''"

text \<open>What \<^verbatim>\<open>for x in v\<close> runs through.\<close>

definition py_iter :: "json \<Rightarrow> pyexc + json list" where
  "py_iter v =
     (case v of
        JArr xs \<Rightarrow> Inr xs
      | JStr s \<Rightarrow> Inr (map (\<lambda>c. JStr [c]) s)
      | JObj d \<Rightarrow> Inr (map (\<lambda>kv. JStr (fst kv)) d)
      | _ \<Rightarrow> Inl (Raised TypeError (quoted (type_name v) @ '' object is not iterable'')))"

text \<open>
  The slice \<^verbatim>\<open>x[:20]\<close>. A dictionary rejects the slice as a key (\<^verbatim>\<open>TypeError\<close> before
  Python 3.12).
\<close>

definition py_slice20 :: "json \<Rightarrow> pyexc + json" where
  "py_slice20 v =
     (case v of
        JStr s \<Rightarrow> Inr (JStr (take 20 s))
      | JArr xs \<Rightarrow> Inr (JArr (take 20 xs))
      | JObj d \<Rightarrow> Inl (Raised TypeError (''unhashable type: '' @ quoted ''slice''))
      | _ \<Rightarrow> Inl (Raised TypeError (quoted (type_name v) @ '' object is not subscriptable'')))"

text \<open>
  Printing is a list of the lines given to \<^verbatim>\<open>print\<close>, and the exception that ended it,
  if one did.
\<close>

type_synonym printed = "string list \<times> pyexc option"

fun then_print :: "printed \<Rightarrow> printed \<Rightarrow> printed" where
  "then_print (out, Some e) p = (out, Some e)"
| "then_print (out, None) (out', r) = (out @ out', r)"

fun print_each :: "(json \<Rightarrow> printed) \<Rightarrow> json list \<Rightarrow> printed" where
  "print_each f [] = ([], None)"
| "print_each f (x # xs) = then_print (f x) (print_each f xs)"

definition print_all :: "(json \<Rightarrow> printed) \<Rightarrow> json \<Rightarrow> printed" where
  "print_all f v = (case py_iter v of Inl e \<Rightarrow> ([], Some e) | Inr xs \<Rightarrow> print_each f xs)"

text \<open>Lines 173-180, the body of the loop over \<^verbatim>\<open>pending\<close>.\<close>

definition print_pending :: "py_env \<Rightarrow> json \<Rightarrow> printed" where
  "print_pending env req =
     (case req of
        JObj d \<Rightarrow>
          (let display_name =
                 (if truthy (dict_get d ''displayName'' JNull)
                  then dict_get d ''displayName'' JNull
                  else dict_get d ''nodeId'' (JStr ''unknown''))
           in then_print
                ([''  - '' @ fmt env display_name,
                  ''    Node ID: '' @ fmt env (dict_get d ''nodeId'' (JStr ''N/A'')),
                  ''    Request ID: '' @ fmt env (dict_get d ''requestId'' (JStr ''N/A''))], None)
             (then_print
                (if truthy (dict_get d ''platform'' JNull)
                 then ([''    Platform: '' @ fmt env (dict_get d ''platform'' JNull)], None)
                 else ([], None))
                (if truthy (dict_get d ''ts'' JNull)
                 then (case format_timestamp env (dict_get d ''ts'' (JInt 0)) of
                         Inl e \<Rightarrow> ([], Some e)
                       | Inr s \<Rightarrow> ([''    Created: '' @ s], None))
                 else ([], None))))
      | _ \<Rightarrow> ([], Some (no_get req)))"

text \<open>Lines 192-194: the token of a paired node.\<close>

definition print_token :: "py_env \<Rightarrow> (string \<times> json) list \<Rightarrow> printed" where
  "print_token env d =
     (let token = dict_get d ''token'' (JStr [])
      in if truthy token
         then (case py_slice20 token of
                 Inl e \<Rightarrow> ([], Some e)
               | Inr t \<Rightarrow> ([''    Token: '' @ fmt env t @ ''...''], None))
         else ([], None))"

text \<open>Lines 187-196, the body of the loop over \<^verbatim>\<open>paired\<close>.\<close>

definition print_paired :: "py_env \<Rightarrow> json \<Rightarrow> printed" where
  "print_paired env node =
     (case node of
        JObj d \<Rightarrow>
          then_print
            ([''  - '' @ fmt env (dict_get d ''displayName'' (JStr ''Paired Node'')),
              ''    Node ID: '' @ fmt env (dict_get d ''nodeId'' (JStr ''N/A''))], None)
            (then_print
               (if truthy (dict_get d ''platform'' JNull)
                then ([''    Platform: '' @ fmt env (dict_get d ''platform'' JNull)], None)
                else ([], None))
               (then_print (print_token env d)
                  (if truthy (dict_get d ''approvedAtMs'' JNull)
                   then (case format_timestamp env (dict_get d ''approvedAtMs'' (JInt 0)) of
                           Inl e \<Rightarrow> ([], Some e)
                         | Inr s \<Rightarrow> ([''    Approved: '' @ s], None))
                   else ([], None))))
      | _ \<Rightarrow> ([], Some (no_get node)))"

text \<open>Lines 165-198.\<close>

definition print_result :: "py_env \<Rightarrow> json \<Rightarrow> printed" where
  "print_result env res =
     (case res of
        JObj d \<Rightarrow>
          (let pending = dict_get d ''pending'' (JArr []);
               paired = dict_get d ''paired'' (JArr [])
           in then_print
                ([CHR 0x0A # YELLOW @ ''Pending Node Pairing Requests:'' @ NC], None)
             (then_print
                (if truthy pending then print_all (print_pending env) pending
                 else ([''  - None''], None))
             (then_print
                ([CHR 0x0A # GREEN @ ''Paired Nodes:'' @ NC], None)
                (if truthy paired then print_all (print_paired env) paired
                 else ([''  - None''], None)))))
      | _ \<Rightarrow> ([], Some (no_get res)))"

section \<open>A gateway to run against\<close>

text \<open>
  Concrete data for running the definitions: identifiers as \<^verbatim>\<open>uuid.uuid4()\<close> prints
  them (a source that never repeats itself; only its first two draws are used), raw
  messages as a gateway sends them, and an instance of the \<^verbatim>\<open>json\<close> parameters that
  knows exactly these texts, rejects a binary frame that is no UTF-8 with
  \<^verbatim>\<open>UnicodeDecodeError\<close> and every other text with \<^verbatim>\<open>JSONDecodeError\<close>, as \<^verbatim>\<open>json.loads\<close>
  does.
\<close>

definition sample_uuid4 :: "nat \<Rightarrow> string" where
  "sample_uuid4 n =
     (if n = 0 then ''6f1c2a9e-3b47-4c58-9d10-a2b3c4d5e6f7''
      else ''b8d0e1f2-5a69-4b7c-8e21-0f1e2d3c4b5a'' @ replicate (n - 1) (CHR ''0''))"

definition sample_config :: config where
  "sample_config = new_config sample_uuid4 ''s3cr3t''"

definition msg_challenge :: string where
  \<open>msg_challenge = ''{"type":"event","event":"connect.challenge"}''\<close>

definition msg_tick :: string where
  \<open>msg_tick = ''{"type":"event","event":"tick"}''\<close>

definition msg_hello_ok :: string where
  \<open>msg_hello_ok = ''{"type":"res","id":"6f1c2a9e-3b47-4c58-9d10-a2b3c4d5e6f7","ok":true}''\<close>

definition msg_hello_rejected :: string where
  \<open>msg_hello_rejected =
     ''{"type":"res","id":"6f1c2a9e-3b47-4c58-9d10-a2b3c4d5e6f7","ok":false,"error":{"message":"bad token"}}''\<close>

definition msg_hello_rejected_blank :: string where
  \<open>msg_hello_rejected_blank =
     ''{"type":"res","id":"6f1c2a9e-3b47-4c58-9d10-a2b3c4d5e6f7","ok":false,"error":{"message":""}}''\<close>

definition msg_hello_error_text :: string where
  \<open>msg_hello_error_text =
     ''{"type":"res","id":"6f1c2a9e-3b47-4c58-9d10-a2b3c4d5e6f7","ok":false,"error":"bad token"}''\<close>

definition msg_stray :: string where
  \<open>msg_stray = ''{"type":"res","id":"00000000-0000-4000-8000-000000000000","ok":true}''\<close>

definition msg_pairs :: string where
  \<open>msg_pairs =
     ''{"type":"res","id":"b8d0e1f2-5a69-4b7c-8e21-0f1e2d3c4b5a","ok":true,"payload":{"pending":[],"paired":[{"nodeId":"n1","token":"abcdefghijklmnopqrstuvwxyz"}]}}''\<close>

definition msg_payload_text :: string where
  \<open>msg_payload_text =
     ''{"type":"res","id":"b8d0e1f2-5a69-4b7c-8e21-0f1e2d3c4b5a","ok":true,"payload":"junk"}''\<close>

definition msg_no_type :: string where
  \<open>msg_no_type = ''{"event":"connect.challenge"}''\<close>

definition msg_list :: string where
  \<open>msg_list = ''["type"]''\<close>

definition msg_binary :: string where
  "msg_binary = [CHR 0x80, CHR ''a'', CHR ''b'', CHR ''c'']"


definition wire_connect_req :: string where
  \<open>wire_connect_req =
     ''{"type": "req", "id": "6f1c2a9e-3b47-4c58-9d10-a2b3c4d5e6f7", "method": "connect", "params": {"minProtocol": 3, "maxProtocol": 3, "client": {"id": "check-node-pairs", "version": "1.0.0", "platform": "cli", "mode": "backend"}, "role": "operator", "scopes": ["operator.read", "operator.write", "operator.pairing", "operator.admin"], "caps": [], "auth": {"token": "s3cr3t"}}}''\<close>

definition wire_rpc_req :: string where
  \<open>wire_rpc_req =
     ''{"type": "req", "id": "b8d0e1f2-5a69-4b7c-8e21-0f1e2d3c4b5a", "method": "node.pair.list", "params": {}}''\<close>

definition paired_node_n1 :: json where
  "paired_node_n1 =
     JObj [(''nodeId'', JStr ''n1''), (''token'', JStr ''abcdefghijklmnopqrstuvwxyz'')]"

definition wire :: "(string \<times> json) list" where
  "wire =
     [(msg_challenge,
         JObj [(''type'', JStr ''event''), (''event'', JStr ''connect.challenge'')]),
      (msg_tick,
         JObj [(''type'', JStr ''event''), (''event'', JStr ''tick'')]),
      (msg_hello_ok,
         JObj [(''type'', JStr ''res''), (''id'', JStr (connect_id sample_config)),
               (''ok'', JBool True)]),
      (msg_hello_rejected,
         JObj [(''type'', JStr ''res''), (''id'', JStr (connect_id sample_config)),
               (''ok'', JBool False),
               (''error'', JObj [(''message'', JStr ''bad token'')])]),
      (msg_hello_rejected_blank,
         JObj [(''type'', JStr ''res''), (''id'', JStr (connect_id sample_config)),
               (''ok'', JBool False),
               (''error'', JObj [(''message'', JStr [])])]),
      (msg_hello_error_text,
         JObj [(''type'', JStr ''res''), (''id'', JStr (connect_id sample_config)),
               (''ok'', JBool False),
               (''error'', JStr ''bad token'')]),
      (msg_stray,
         JObj [(''type'', JStr ''res''), (''id'', JStr ''00000000-0000-4000-8000-000000000000''),
               (''ok'', JBool True)]),
      (msg_pairs,
         JObj [(''type'', JStr ''res''), (''id'', JStr (rpc_id sample_config)),
               (''ok'', JBool True),
               (''payload'', JObj [(''pending'', JArr []), (''paired'', JArr [paired_node_n1])])]),
      (msg_payload_text,
         JObj [(''type'', JStr ''res''), (''id'', JStr (rpc_id sample_config)),
               (''ok'', JBool True),
               (''payload'', JStr ''junk'')]),
      (msg_no_type, JObj [(''event'', JStr ''connect.challenge'')]),
      (msg_list, JArr [JStr ''type'']),
      (wire_connect_req, connect_req sample_config),
      (wire_rpc_req, rpc_req sample_config)]"

definition sample_json :: json_module where
  "sample_json =
     \<lparr>loads = (\<lambda>s. case map_of wire s of
                      Some v \<Rightarrow> Inr v
                    | None \<Rightarrow>
                        (if s = msg_binary
                         then Inl (Raised UnicodeDecodeError ''invalid start byte'')
                         else Inl (Raised JSONDecodeError ''Expecting value''))),
      dumps = (\<lambda>v. case map_of (map (\<lambda>(s, w). (w, s)) wire) v of
                      Some s \<Rightarrow> s
                    | None \<Rightarrow> [])\<rparr>"

text \<open>A transport whose calls return, and one whose connection is already lost.\<close>

definition quiet_transport :: transport where
  "quiet_transport = \<lparr>ws_send = (\<lambda>text. None), ws_close = None\<rparr>"

definition lost_transport :: transport where
  "lost_transport =
     \<lparr>ws_send = (\<lambda>text. Some (Raised OtherException ''Connection is already closed.'')),
      ws_close = Some (Raised OtherException ''Connection is already closed.'')\<rparr>"

text \<open>Sessions in the second and in the third phase.\<close>

definition session_hello :: session where
  "session_hello = initial_session\<lparr>phase := Awaiting_hello\<rparr>"

definition session_response :: session where
  "session_response = initial_session\<lparr>phase := Awaiting_response\<rparr>"

text \<open>An instance of the parameters of the report.\<close>

definition sample_env :: py_env where
  "sample_env =
     \<lparr>py_str = (\<lambda>x. ''?''),
      local_time = (\<lambda>ms. Inl (Raised TypeError ''unsupported operand''))\<rparr>"

section \<open>Facts about the sample gateway\<close>

lemma sample_ids:
  "connect_id sample_config = ''6f1c2a9e-3b47-4c58-9d10-a2b3c4d5e6f7''"
  "rpc_id sample_config = ''b8d0e1f2-5a69-4b7c-8e21-0f1e2d3c4b5a''"
  "token sample_config = ''s3cr3t''"
  by (simp_all add: sample_config_def new_config_def sample_uuid4_def)


lemmas sample_msgs =
  msg_challenge_def msg_tick_def msg_hello_ok_def msg_hello_rejected_def
  msg_hello_rejected_blank_def msg_hello_error_text_def msg_stray_def msg_pairs_def
  msg_payload_text_def msg_no_type_def msg_list_def wire_connect_req_def wire_rpc_req_def

lemma loads_challenge:
  "loads sample_json msg_challenge =
     Inr (JObj [(''type'', JStr ''event''), (''event'', JStr ''connect.challenge'')])"
  by (simp add: sample_json_def wire_def sample_msgs)

lemma loads_tick:
  "loads sample_json msg_tick =
     Inr (JObj [(''type'', JStr ''event''), (''event'', JStr ''tick'')])"
  by (simp add: sample_json_def wire_def sample_msgs)

lemma loads_hello_ok:
  "loads sample_json msg_hello_ok =
     Inr (JObj [(''type'', JStr ''res''), (''id'', JStr (connect_id sample_config)),
                (''ok'', JBool True)])"
  by (simp add: sample_json_def wire_def sample_msgs)


lemma loads_hello_rejected_blank:
  "loads sample_json msg_hello_rejected_blank =
     Inr (JObj [(''type'', JStr ''res''), (''id'', JStr (connect_id sample_config)),
                (''ok'', JBool False), (''error'', JObj [(''message'', JStr [])])])"
  by (simp add: sample_json_def wire_def sample_msgs)


lemma loads_stray:
  "loads sample_json msg_stray =
     Inr (JObj [(''type'', JStr ''res''),
                (''id'', JStr ''00000000-0000-4000-8000-000000000000''),
                (''ok'', JBool True)])"
  by (simp add: sample_json_def wire_def sample_msgs)

lemma loads_pairs:
  "loads sample_json msg_pairs =
     Inr (JObj [(''type'', JStr ''res''), (''id'', JStr (rpc_id sample_config)),
                (''ok'', JBool True),
                (''payload'', JObj [(''pending'', JArr []),
                                    (''paired'', JArr [paired_node_n1])])])"
  by (simp add: sample_json_def wire_def sample_msgs)

lemma loads_payload_text:
  "loads sample_json msg_payload_text =
     Inr (JObj [(''type'', JStr ''res''), (''id'', JStr (rpc_id sample_config)),
                (''ok'', JBool True), (''payload'', JStr ''junk'')])"
  by (simp add: sample_json_def wire_def sample_msgs)





lemma loads_connect_req:
  "loads sample_json wire_connect_req = Inr (connect_req sample_config)"
  by (simp add: sample_json_def wire_def sample_msgs)

lemma dumps_connect_req:
  "dumps sample_json (connect_req sample_config) = wire_connect_req"
  by (simp add: sample_json_def wire_def connect_req_def rpc_req_def paired_node_n1_def
      sample_ids)

lemma dumps_rpc_req:
  "dumps sample_json (rpc_req sample_config) = wire_rpc_req"
  by (simp add: sample_json_def wire_def connect_req_def rpc_req_def paired_node_n1_def
      sample_ids)

section \<open>The handler, step by step\<close>

lemma except_clauses_None [simp]: "except_clauses None st = st"
  by (simp add: except_clauses_def)

lemma except_clauses_keeps [simp]:
  "phase (except_clauses raised st) = phase st"
  "result (except_clauses raised st) = result st"
  "response_received (except_clauses raised st) = response_received st"
  by (simp_all add: except_clauses_def split: option.splits)

lemma on_message_typed:
  assumes "loads js message = Inr (JObj d)" and "map_of d ''type'' = Some t"
  shows "on_message_try ws js cfg st message = dispatch ws js cfg st d"
  using assms by (simp add: on_message_try_def parse_frame_def)

lemma on_message_ended:
  "on_message_try ws js cfg st message = ((st', acts), raised) \<Longrightarrow>
   on_message ws js cfg st message = (except_clauses raised st', acts)"
  by (simp add: on_message_def)

lemma run_forever_closing:
  "on_message ws js cfg st message = (st', [Close]) \<Longrightarrow>
   run_forever ws js cfg st (Message message # evs) = Some (on_close st', [Close])"
  by simp

lemma run_forever_going:
  "on_message ws js cfg st message = (st', acts) \<Longrightarrow> Close \<notin> set acts \<Longrightarrow>
   run_forever ws js cfg st (Message message # evs) =
     map_option (\<lambda>(s, more). (s, acts @ more)) (run_forever ws js cfg st' evs)"
  by simp



text \<open>
  A rejected handshake, when the \<^verbatim>\<open>error\<close> of the response is absent or a dictionary:
  the message, or the fallback, is assigned and the close is requested.
\<close>

lemma on_message_rejection:
  assumes "phase st = Awaiting_hello"
    and "loads js message = Inr (JObj d)"
    and "map_of d ''type'' = Some (JStr ''res'')"
    and "map_of d ''id'' = Some (JStr (connect_id cfg))"
    and "\<not> truthy (dict_get d ''ok'' JNull)"
    and "map_of d ''error'' = None \<and> e = [] \<or> map_of d ''error'' = Some (JObj e)"
  shows "on_message ws js cfg st message =
           (except_clauses (ws_close ws)
              (st\<lparr>error_msg := dict_get e ''message'' (JStr ''Handshake failed'')\<rparr>), [Close])"
proof -
  have "error_message d ''Handshake failed'' =
      Inr (dict_get e ''message'' (JStr ''Handshake failed''))"
    using assms(6) by (auto simp: error_message_def py_get_def dict_get_def)
  then have "dispatch ws js cfg st d =
      ((st\<lparr>error_msg := dict_get e ''message'' (JStr ''Handshake failed'')\<rparr>, [Close]),
       ws_close ws)"
    using assms(1,3-5) by (simp add: dispatch_def dict_get_def)
  then show ?thesis
    using assms(2,3) by (simp add: on_message_typed on_message_ended)
qed

text \<open>
  An accepted call: the payload, or the default when the key is absent, is assigned
  whatever it is, and the close is requested.
\<close>

lemma on_message_call_ok:
  assumes "phase st = Awaiting_response"
    and "loads js message = Inr (JObj d)"
    and "map_of d ''type'' = Some (JStr ''res'')"
    and "map_of d ''id'' = Some (JStr (rpc_id cfg))"
    and "truthy (dict_get d ''ok'' JNull)"
  shows "on_message ws js cfg st message =
           (except_clauses (ws_close ws)
              (st\<lparr>result := (case map_of d ''payload'' of
                                Some p \<Rightarrow> p
                              | None \<Rightarrow> JObj [(''pending'', JArr []), (''paired'', JArr [])]),
                  response_received := True\<rparr>), [Close])"
proof -
  have "dispatch ws js cfg st d =
      ((st\<lparr>result := dict_get d ''payload'' default_result,
              response_received := True\<rparr>, [Close]), ws_close ws)"
    using assms(1,3-5) by (simp add: dispatch_def dict_get_def)
  then show ?thesis
    using assms(2,3)
    by (simp add: on_message_typed on_message_ended dict_get_def default_result_def)
qed

lemma check_node_pairs_outcome:
  "run_forever ws js cfg initial_session evs = Some (st, acts) \<Longrightarrow>
   check_node_pairs ws js cfg evs =
     Some (if truthy (error_msg st) then Inl (error_msg st) else Inr (result st))"
  by (simp add: check_node_pairs_def)

lemma check_node_pairs_waits:
  "run_forever ws js cfg initial_session evs = None \<Longrightarrow> check_node_pairs ws js cfg evs = None"
  by (simp add: check_node_pairs_def)

text \<open>The sample gateway, message by message, on the transport whose calls return.\<close>

lemma quiet_calls [simp]:
  "ws_send quiet_transport text = None" "ws_close quiet_transport = None"
  by (simp_all add: quiet_transport_def)

lemma step_challenge:
  "on_message quiet_transport sample_json sample_config initial_session msg_challenge =
     (session_hello, [Send wire_connect_req])"
  using loads_challenge dumps_connect_req
  by (simp add: on_message_def on_message_try_def parse_frame_def dispatch_def dict_get_def
      session_hello_def initial_session_def)


lemma step_hello_ok_plain:
  "on_message quiet_transport sample_json sample_config session_hello msg_hello_ok =
     (session_response, [Send wire_rpc_req])"
  using loads_hello_ok dumps_rpc_req
  by (simp add: on_message_def on_message_try_def parse_frame_def dispatch_def dict_get_def
      session_hello_def session_response_def initial_session_def)

lemma step_rejected_blank:
  "on_message quiet_transport sample_json sample_config session_hello msg_hello_rejected_blank =
     (session_hello\<lparr>error_msg := JStr []\<rparr>, [Close])"
  using loads_hello_rejected_blank
  by (simp add: on_message_def on_message_try_def parse_frame_def dispatch_def dict_get_def
      error_message_def py_get_def session_hello_def initial_session_def)


lemma step_payload_text:
  "on_message quiet_transport sample_json sample_config session_response msg_payload_text =
     (session_response\<lparr>result := JStr ''junk'', response_received := True\<rparr>, [Close])"
  using loads_payload_text
  by (simp add: on_message_def on_message_try_def parse_frame_def dispatch_def dict_get_def
      session_response_def initial_session_def)


section \<open>Printing\<close>

lemma then_print_fst: "set (fst p) \<subseteq> set (fst (then_print p q))"
  by (cases p; cases q; cases "snd p") auto

lemma then_print_snd: "snd p = None \<Longrightarrow> set (fst q) \<subseteq> set (fst (then_print p q))"
  by (cases p; cases q) auto

lemma then_print_done:
  "then_print p q = (out, None) \<Longrightarrow> snd p = None \<and> snd q = None \<and> out = fst p @ fst q"
  by (cases p; cases q; cases "snd p") auto

lemma print_each_done:
  "print_each f xs = (out, None) \<Longrightarrow> x \<in> set xs \<Longrightarrow> set (fst (f x)) \<subseteq> set out"
proof (induction xs arbitrary: out)
  case Nil
  then show ?case by simp
next
  case (Cons y ys)
  from Cons.prems(1) have d: "snd (f y) = None" "snd (print_each f ys) = None"
      "out = fst (f y) @ fst (print_each f ys)"
    using then_print_done [of "f y" "print_each f ys" out] by simp_all
  show ?case
  proof (cases "x = y")
    case True
    with d show ?thesis by auto
  next
    case False
    with Cons.prems(2) have "x \<in> set ys" by simp
    moreover have "print_each f ys = (fst (print_each f ys), None)"
      using d(2) by (cases "print_each f ys") simp
    ultimately have "set (fst (f x)) \<subseteq> set (fst (print_each f ys))"
      using Cons.IH by blast
    with d show ?thesis by auto
  qed
qed

lemma print_token_text:
  assumes "map_of d ''token'' = Some (JStr tok)" and "tok \<noteq> []"
  shows "print_token env d = ([''    Token: '' @ take 20 tok @ ''...''], None)"
  using assms by (simp add: print_token_def dict_get_def py_slice20_def fmt_def)

lemma print_paired_token:
  assumes "map_of d ''token'' = Some (JStr tok)" and "tok \<noteq> []"
  shows "''    Token: '' @ take 20 tok @ ''...'' \<in> set (fst (print_paired env (JObj d)))"
proof -
  let ?plat = "if truthy (dict_get d ''platform'' JNull)
                then ([''    Platform: '' @ fmt env (dict_get d ''platform'' JNull)], None)
                else ([], None)"
  let ?rest = "if truthy (dict_get d ''approvedAtMs'' JNull)
                   then (case format_timestamp env (dict_get d ''approvedAtMs'' (JInt 0)) of
                           Inl e \<Rightarrow> ([], Some e)
                         | Inr s \<Rightarrow> ([''    Approved: '' @ s], None))
                   else ([], None)"
  have "''    Token: '' @ take 20 tok @ ''...''
      \<in> set (fst (then_print (print_token env d) ?rest))"
    using then_print_fst [of "print_token env d" ?rest] print_token_text [OF assms, of env]
    by simp
  then have "''    Token: '' @ take 20 tok @ ''...''
      \<in> set (fst (then_print ?plat (then_print (print_token env d) ?rest)))"
    using then_print_snd [of ?plat "then_print (print_token env d) ?rest"] by auto
  then show ?thesis
    unfolding print_paired_def json.case
    by (rule set_mp [OF then_print_snd, rotated]) simp
qed

lemma print_all_list: "print_all f (JArr xs) = print_each f xs"
  by (simp add: print_all_def py_iter_def)

lemma print_result_paired:
  assumes "map_of r ''paired'' = Some (JArr nodes)" and "node \<in> set nodes"
    and "print_result env (JObj r) = (out, None)"
  shows "set (fst (print_paired env node)) \<subseteq> set out"
proof -
  let ?pending = "dict_get r ''pending'' (JArr [])"
  let ?h1 = "([CHR 0x0A # YELLOW @ ''Pending Node Pairing Requests:'' @ NC], None) :: printed"
  let ?p1 = "if truthy ?pending then print_all (print_pending env) ?pending
             else ([''  - None''], None)"
  let ?h2 = "([CHR 0x0A # GREEN @ ''Paired Nodes:'' @ NC], None) :: printed"
  let ?p2 = "print_each (print_paired env) nodes"
  from assms(2) have ne: "nodes \<noteq> []" by auto
  have "print_result env (JObj r) = then_print ?h1 (then_print ?p1 (then_print ?h2 ?p2))"
  proof -
    have "dict_get r ''paired'' (JArr []) = JArr nodes"
      using assms(1) by (simp add: dict_get_def)
    then show ?thesis
      using ne by (simp add: print_result_def Let_def print_all_list)
  qed
  with assms(3) have a: "then_print ?h1 (then_print ?p1 (then_print ?h2 ?p2)) = (out, None)"
    by simp
  from then_print_done [OF a]
  have b: "snd (then_print ?p1 (then_print ?h2 ?p2)) = None"
    and o1: "out = fst ?h1 @ fst (then_print ?p1 (then_print ?h2 ?p2))" by simp_all
  from b have b': "then_print ?p1 (then_print ?h2 ?p2)
      = (fst (then_print ?p1 (then_print ?h2 ?p2)), None)"
    by (metis prod.collapse)
  from then_print_done [OF b']
  have c: "snd (then_print ?h2 ?p2) = None"
    and o2: "fst (then_print ?p1 (then_print ?h2 ?p2)) = fst ?p1 @ fst (then_print ?h2 ?p2)"
    by simp_all
  from c have c': "then_print ?h2 ?p2 = (fst (then_print ?h2 ?p2), None)"
    by (metis prod.collapse)
  from then_print_done [OF c']
  have e: "snd ?p2 = None" and o3: "fst (then_print ?h2 ?p2) = fst ?h2 @ fst ?p2"
    by simp_all
  from e have "?p2 = (fst ?p2, None)" by (metis prod.collapse)
  from print_each_done [OF this assms(2)]
  have "set (fst (print_paired env node)) \<subseteq> set (fst ?p2)" .
  then show ?thesis
    unfolding o1 o2 o3 by auto
qed

section \<open>The claims\<close>

text \<open>
  C1. While the phase is \<^verbatim>\<open>awaiting-challenge\<close>, a frame of type \<^verbatim>\<open>event\<close> whose event
  name is \<^verbatim>\<open>connect.challenge\<close> makes the handler send exactly one request: the
  \<^verbatim>\<open>connect\<close> request with the fixed parameters (protocol 3 to 3, the constant client
  identity, role \<^verbatim>\<open>operator\<close>, the four operator scopes, no caps, the token), and the
  phase becomes \<^verbatim>\<open>awaiting-hello\<close>; the session is otherwise unchanged, but for the
  error that a failing \<^verbatim>\<open>ws.send\<close> leaves. Every other message in this phase sends
  nothing and leaves the phase as it is.
\<close>

theorem challenge_emits_connect:
  assumes "phase st = Awaiting_challenge"
  shows "(loads js message = Inr (JObj d)
            \<and> map_of d ''type'' = Some (JStr ''event'')
            \<and> map_of d ''event'' = Some (JStr ''connect.challenge'')
            \<and> text = dumps js (JObj
                    [(''type'', JStr ''req''),
                     (''id'', JStr (connect_id cfg)),
                     (''method'', JStr ''connect''),
                     (''params'', JObj
                        [(''minProtocol'', JInt 3),
                         (''maxProtocol'', JInt 3),
                         (''client'', JObj
                            [(''id'', JStr ''check-node-pairs''),
                             (''version'', JStr ''1.0.0''),
                             (''platform'', JStr ''cli''),
                             (''mode'', JStr ''backend'')]),
                         (''role'', JStr ''operator''),
                         (''scopes'', JArr
                            [JStr ''operator.read'', JStr ''operator.write'',
                             JStr ''operator.pairing'', JStr ''operator.admin'']),
                         (''caps'', JArr []),
                         (''auth'', JObj [(''token'', JStr (token cfg))])])])
          \<longrightarrow> on_message ws js cfg st message =
                (except_clauses (ws_send ws text) (st\<lparr>phase := Awaiting_hello\<rparr>), [Send text])
              \<and> phase (fst (on_message ws js cfg st message)) = Awaiting_hello
              \<and> (ws_send ws text = None
                  \<longrightarrow> on_message ws js cfg st message =
                        (st\<lparr>phase := Awaiting_hello\<rparr>, [Send text])))
       \<and> ((\<forall>d'. loads js message = Inr (JObj d')
                  \<longrightarrow> map_of d' ''type'' \<noteq> Some (JStr ''event'')
                      \<or> map_of d' ''event'' \<noteq> Some (JStr ''connect.challenge''))
          \<longrightarrow> phase (fst (on_message ws js cfg st message)) = Awaiting_challenge
              \<and> snd (on_message ws js cfg st message) = [])"
  (is "(?challenge \<longrightarrow> ?sent \<and> ?moved \<and> ?plain) \<and> (?other \<longrightarrow> ?kept \<and> ?silent)")
proof (intro conjI impI)
  assume h: ?challenge
  then have "on_message_try ws js cfg st message = dispatch ws js cfg st d"
    by (simp add: on_message_typed)
  with h assms show s: ?sent
    by (simp add: on_message_def dispatch_def dict_get_def connect_req_def)
  then show ?moved by simp
  assume "ws_send ws text = None"
  with s show "on_message ws js cfg st message = (st\<lparr>phase := Awaiting_hello\<rparr>, [Send text])"
    by simp
next
  assume h: ?other
  show ?kept
    using assms h
    by (auto simp: on_message_def on_message_try_def parse_frame_def dispatch_def dict_get_def
             split: sum.splits json.splits option.splits if_splits)
next
  assume h: ?other
  show ?silent
    using assms h
    by (auto simp: on_message_def on_message_try_def parse_frame_def dispatch_def dict_get_def
             split: sum.splits json.splits option.splits if_splits)
qed

theorem challenge_emits_connect_witness:
  "on_message quiet_transport sample_json sample_config initial_session msg_challenge =
     (initial_session\<lparr>phase := Awaiting_hello\<rparr>, [Send wire_connect_req])
   \<and> phase (fst (on_message quiet_transport sample_json sample_config initial_session msg_tick))
       = Awaiting_challenge
   \<and> snd (on_message quiet_transport sample_json sample_config initial_session msg_tick) = []"
proof -
  have p: "phase initial_session = Awaiting_challenge"
    by (simp add: initial_session_def)
  have s: "wire_connect_req = dumps sample_json (JObj
                    [(''type'', JStr ''req''),
                     (''id'', JStr (connect_id sample_config)),
                     (''method'', JStr ''connect''),
                     (''params'', JObj
                        [(''minProtocol'', JInt 3),
                         (''maxProtocol'', JInt 3),
                         (''client'', JObj
                            [(''id'', JStr ''check-node-pairs''),
                             (''version'', JStr ''1.0.0''),
                             (''platform'', JStr ''cli''),
                             (''mode'', JStr ''backend'')]),
                         (''role'', JStr ''operator''),
                         (''scopes'', JArr
                            [JStr ''operator.read'', JStr ''operator.write'',
                             JStr ''operator.pairing'', JStr ''operator.admin'']),
                         (''caps'', JArr []),
                         (''auth'', JObj [(''token'', JStr (token sample_config))])])])"
    using dumps_connect_req by (simp add: connect_req_def)
  from challenge_emits_connect [OF p, of sample_json msg_challenge
      "[(''type'', JStr ''event''), (''event'', JStr ''connect.challenge'')]"
      wire_connect_req sample_config quiet_transport]
  have a: "on_message quiet_transport sample_json sample_config initial_session msg_challenge =
     (initial_session\<lparr>phase := Awaiting_hello\<rparr>, [Send wire_connect_req])"
    using loads_challenge s by simp
  from challenge_emits_connect [OF p, of sample_json msg_tick _ _ sample_config quiet_transport]
  have b: "phase (fst (on_message quiet_transport sample_json sample_config initial_session
                         msg_tick)) = Awaiting_challenge
   \<and> snd (on_message quiet_transport sample_json sample_config initial_session msg_tick) = []"
    using loads_tick by simp
  from a b show ?thesis by simp
qed

text \<open>
  C2. A response whose \<^verbatim>\<open>id\<close> is not the identifier awaited in the current phase
  (\<^verbatim>\<open>connect_id\<close> in \<^verbatim>\<open>awaiting-hello\<close>, \<^verbatim>\<open>rpc_id\<close> in \<^verbatim>\<open>awaiting-response\<close>) leaves
  phase, result and error as they are and sends nothing. In \<^verbatim>\<open>awaiting-challenge\<close>
  no response is awaited and each one is ignored.
\<close>

theorem mismatched_response_ignored:
  assumes "loads js message = Inr (JObj d)"
    and "map_of d ''type'' = Some (JStr ''res'')"
    and "phase st = Awaiting_hello \<longrightarrow> map_of d ''id'' \<noteq> Some (JStr (connect_id cfg))"
    and "phase st = Awaiting_response \<longrightarrow> map_of d ''id'' \<noteq> Some (JStr (rpc_id cfg))"
  shows "on_message ws js cfg st message = (st, [])"
proof -
  have "dispatch ws js cfg st d = ((st, []), None)"
    using assms(2-4)
    by (cases "phase st") (auto simp: dispatch_def dict_get_def split: option.splits)
  then show ?thesis
    using assms(1,2) by (simp add: on_message_typed on_message_ended)
qed

theorem mismatched_response_ignored_witness:
  "on_message quiet_transport sample_json sample_config session_hello msg_stray
     = (session_hello, [])
   \<and> on_message quiet_transport sample_json sample_config session_response msg_stray
       = (session_response, [])"
  using mismatched_response_ignored [OF loads_stray, of session_hello sample_config]
        mismatched_response_ignored [OF loads_stray, of session_response sample_config]
  by (simp add: session_hello_def session_response_def initial_session_def sample_ids)



text \<open>
  C4. The gateway rejects the handshake with an empty message. The handler assigns the
  empty string to \<^verbatim>\<open>error_msg\<close> and requests the close, and the run ends with an error
  that line 154 finds false: the rejected session is not a failed one.
\<close>

theorem blank_rejection_is_no_failure:
  "on_message quiet_transport sample_json sample_config session_hello msg_hello_rejected_blank =
     (session_hello\<lparr>error_msg := JStr []\<rparr>, [Close])
   \<and> run_forever quiet_transport sample_json sample_config initial_session
        [Message msg_challenge, Message msg_hello_rejected_blank] =
      Some (session_hello\<lparr>error_msg := JStr [], response_received := True\<rparr>,
            [Send wire_connect_req, Close])
   \<and> \<not> truthy (error_msg (session_hello\<lparr>error_msg := JStr [], response_received := True\<rparr>))"
  using step_challenge step_rejected_blank
  by (simp add: on_close_def)

text \<open>
  C5. The gateway answers the call with \<^verbatim>\<open>ok\<close> true and a payload that is a string. Line
  120 takes the default for a missing key only: \<^verbatim>\<open>check_node_pairs\<close> returns the string,
  where its docstring promises a dictionary of the two lists, and \<^verbatim>\<open>print_result\<close>
  raises on it.
\<close>

theorem malformed_payload_returned:
  "check_node_pairs quiet_transport sample_json sample_config
     [Message msg_challenge, Message msg_hello_ok, Message msg_payload_text] =
   Some (Inr (JStr ''junk''))
   \<and> print_result sample_env (JStr ''junk'') =
       ([], Some (Raised AttributeError
                    (quoted ''str'' @ '' object has no attribute '' @ quoted ''get'')))"
  using step_challenge step_hello_ok_plain step_payload_text
  by (simp add: check_node_pairs_def on_close_def session_response_def initial_session_def
      print_result_def no_get_def)




text \<open>
  C7. Every text the handler sends in \<^verbatim>\<open>awaiting-challenge\<close> is the serialised connect
  request; where \<^verbatim>\<open>json.loads\<close> inverts \<^verbatim>\<open>json.dumps\<close> on that request, parsing the text
  as an incoming frame is parsed yields a frame with type \<^verbatim>\<open>req\<close>, the id \<^verbatim>\<open>connect_id\<close>,
  the method \<^verbatim>\<open>connect\<close> and the parameters that were sent.
\<close>

theorem connect_req_round_trip:
  assumes "phase st = Awaiting_challenge"
    and "Send text \<in> set (snd (on_message ws js cfg st message))"
    and "loads js (dumps js (connect_req cfg)) = Inr (connect_req cfg)"
  shows "\<exists>d. parse_frame js text = Inr (Some d)
           \<and> map_of d ''type'' = Some (JStr ''req'')
           \<and> map_of d ''id'' = Some (JStr (connect_id cfg))
           \<and> map_of d ''method'' = Some (JStr ''connect'')
           \<and> map_of d ''params'' = Some (JObj
                [(''minProtocol'', JInt 3),
                 (''maxProtocol'', JInt 3),
                 (''client'', JObj
                    [(''id'', JStr ''check-node-pairs''),
                     (''version'', JStr ''1.0.0''),
                     (''platform'', JStr ''cli''),
                     (''mode'', JStr ''backend'')]),
                 (''role'', JStr ''operator''),
                 (''scopes'', JArr
                    [JStr ''operator.read'', JStr ''operator.write'',
                     JStr ''operator.pairing'', JStr ''operator.admin'']),
                 (''caps'', JArr []),
                 (''auth'', JObj [(''token'', JStr (token cfg))])])"
proof -
  have "text = dumps js (connect_req cfg)"
    using assms(1,2)
    by (auto simp: on_message_def on_message_try_def parse_frame_def dispatch_def
             split: sum.splits json.splits option.splits if_splits)
  then have "parse_frame js text = Inr (Some
          [(''type'', JStr ''req''),
           (''id'', JStr (connect_id cfg)),
           (''method'', JStr ''connect''),
           (''params'', JObj
              [(''minProtocol'', JInt 3),
               (''maxProtocol'', JInt 3),
               (''client'', JObj
                  [(''id'', JStr ''check-node-pairs''),
                   (''version'', JStr ''1.0.0''),
                   (''platform'', JStr ''cli''),
                   (''mode'', JStr ''backend'')]),
               (''role'', JStr ''operator''),
               (''scopes'', JArr
                  [JStr ''operator.read'', JStr ''operator.write'',
                   JStr ''operator.pairing'', JStr ''operator.admin'']),
               (''caps'', JArr []),
               (''auth'', JObj [(''token'', JStr (token cfg))])])])"
    using assms(3) by (simp add: parse_frame_def connect_req_def)
  then show ?thesis by simp
qed

theorem connect_req_round_trip_witness:
  "Send wire_connect_req
     \<in> set (snd (on_message quiet_transport sample_json sample_config initial_session
                    msg_challenge))
   \<and> (\<exists>d. parse_frame sample_json wire_connect_req = Inr (Some d)
           \<and> map_of d ''type'' = Some (JStr ''req'')
           \<and> map_of d ''id'' = Some (JStr ''6f1c2a9e-3b47-4c58-9d10-a2b3c4d5e6f7'')
           \<and> map_of d ''method'' = Some (JStr ''connect'')
           \<and> map_of d ''params'' = Some (JObj
                [(''minProtocol'', JInt 3),
                 (''maxProtocol'', JInt 3),
                 (''client'', JObj
                    [(''id'', JStr ''check-node-pairs''),
                     (''version'', JStr ''1.0.0''),
                     (''platform'', JStr ''cli''),
                     (''mode'', JStr ''backend'')]),
                 (''role'', JStr ''operator''),
                 (''scopes'', JArr
                    [JStr ''operator.read'', JStr ''operator.write'',
                     JStr ''operator.pairing'', JStr ''operator.admin'']),
                 (''caps'', JArr []),
                 (''auth'', JObj [(''token'', JStr ''s3cr3t'')])]))"
proof -
  have p: "phase initial_session = Awaiting_challenge"
    by (simp add: initial_session_def)
  have s: "Send wire_connect_req
     \<in> set (snd (on_message quiet_transport sample_json sample_config initial_session
                    msg_challenge))"
    using step_challenge by simp
  have r: "loads sample_json (dumps sample_json (connect_req sample_config))
      = Inr (connect_req sample_config)"
    using loads_connect_req dumps_connect_req by simp
  from connect_req_round_trip [OF p s r] s show ?thesis
    by (simp add: sample_ids)
qed


lemma lost_calls [simp]:
  "ws_send lost_transport text = Some (Raised OtherException ''Connection is already closed.'')"
  "ws_close lost_transport = Some (Raised OtherException ''Connection is already closed.'')"
  by (simp_all add: lost_transport_def)




text \<open>
  C9, as the code has it. A paired node whose \<^verbatim>\<open>token\<close> is a non-empty string is printed
  with one token line: the first 20 characters of the token followed by three dots.
  The line is part of what \<^verbatim>\<open>print_result\<close> prints whenever the report completes. A
  token longer than 20 characters is cut to a proper prefix of 20 characters; a token
  of at most 20 characters is printed whole before the dots.
\<close>

theorem paired_token_truncated:
  assumes "map_of d ''token'' = Some (JStr tok)" and "tok \<noteq> []"
  shows "print_token env d = ([''    Token: '' @ take 20 tok @ ''...''], None)
       \<and> ''    Token: '' @ take 20 tok @ ''...'' \<in> set (fst (print_paired env (JObj d)))
       \<and> (map_of r ''paired'' = Some (JArr nodes) \<and> JObj d \<in> set nodes
            \<and> print_result env (JObj r) = (out, None)
          \<longrightarrow> ''    Token: '' @ take 20 tok @ ''...'' \<in> set out)
       \<and> (20 < length tok \<longrightarrow> length (take 20 tok) = 20 \<and> take 20 tok \<noteq> tok)
       \<and> (length tok \<le> 20 \<longrightarrow> take 20 tok = tok)"
proof (intro conjI impI)
  show "print_token env d = ([''    Token: '' @ take 20 tok @ ''...''], None)"
    using assms by (rule print_token_text)
  show "''    Token: '' @ take 20 tok @ ''...'' \<in> set (fst (print_paired env (JObj d)))"
    using assms by (rule print_paired_token)
next
  assume h: "map_of r ''paired'' = Some (JArr nodes) \<and> JObj d \<in> set nodes
            \<and> print_result env (JObj r) = (out, None)"
  then have "set (fst (print_paired env (JObj d))) \<subseteq> set out"
    using print_result_paired [of r nodes "JObj d" env out] by simp
  then show "''    Token: '' @ take 20 tok @ ''...'' \<in> set out"
    using print_paired_token [OF assms, of env] by auto
next
  assume "20 < length tok"
  then show "length (take 20 tok) = 20" by simp
next
  assume l: "20 < length tok"
  show "take 20 tok \<noteq> tok"
  proof
    assume "take 20 tok = tok"
    then have "length (take 20 tok) = length tok" by simp
    with l show False by simp
  qed
next
  assume "length tok \<le> 20"
  then show "take 20 tok = tok" by simp
qed

lemma print_result_n1:
  "print_result sample_env (JObj [(''pending'', JArr []), (''paired'', JArr [paired_node_n1])]) =
     ([CHR 0x0A # YELLOW @ ''Pending Node Pairing Requests:'' @ NC,
       ''  - None'',
       CHR 0x0A # GREEN @ ''Paired Nodes:'' @ NC,
       ''  - Paired Node'',
       ''    Node ID: n1'',
       ''    Token: abcdefghijklmnopqrst...''], None)"
  by (simp add: print_result_def print_all_def py_iter_def print_paired_def print_token_def
      py_slice20_def dict_get_def fmt_def paired_node_n1_def)

theorem paired_token_truncated_witness:
  "''    Token: abcdefghijklmnopqrst...''
     \<in> set (fst (print_result sample_env
                   (JObj [(''pending'', JArr []), (''paired'', JArr [paired_node_n1])])))
   \<and> take 20 ''abcdefghijklmnopqrstuvwxyz'' \<noteq> ''abcdefghijklmnopqrstuvwxyz''
   \<and> print_token sample_env [(''token'', JStr ''tok-12345'')]
       = ([''    Token: tok-12345...''], None)"
proof -
  from paired_token_truncated [of "[(''nodeId'', JStr ''n1''),
          (''token'', JStr ''abcdefghijklmnopqrstuvwxyz'')]" "''abcdefghijklmnopqrstuvwxyz''"
      sample_env "[(''pending'', JArr []), (''paired'', JArr [paired_node_n1])]"
      "[paired_node_n1]"
      "fst (print_result sample_env
              (JObj [(''pending'', JArr []), (''paired'', JArr [paired_node_n1])]))"]
  have a: "''    Token: abcdefghijklmnopqrst...''
     \<in> set (fst (print_result sample_env
                   (JObj [(''pending'', JArr []), (''paired'', JArr [paired_node_n1])])))
     \<and> take 20 ''abcdefghijklmnopqrstuvwxyz'' \<noteq> ''abcdefghijklmnopqrstuvwxyz''"
    using print_result_n1 by (simp add: paired_node_n1_def)
  from paired_token_truncated [of "[(''token'', JStr ''tok-12345'')]" "''tok-12345''" sample_env]
  have b: "print_token sample_env [(''token'', JStr ''tok-12345'')]
       = ([''    Token: tok-12345...''], None)"
    by simp
  from a b show ?thesis by simp
qed

text \<open>
  C9, as the claim has it, fails: a token of nine characters is printed in full.
\<close>

theorem short_token_shown_in_full:
  "print_paired sample_env (JObj [(''nodeId'', JStr ''n2''), (''token'', JStr ''tok-12345'')]) =
     ([''  - Paired Node'', ''    Node ID: n2'', ''    Token: '' @ ''tok-12345'' @ ''...''], None)"
  by (simp add: print_paired_def print_token_def py_slice20_def dict_get_def fmt_def)

text \<open>
  C10. The gateway rejects the handshake with an empty message. The handler records the
  empty string as the error and requests the close; the test of line 154 finds the
  empty string false, and \<^verbatim>\<open>check_node_pairs\<close> returns the two empty lists instead of
  raising.
\<close>

theorem blank_rejection_returns_result:
  "check_node_pairs quiet_transport sample_json sample_config
     [Message msg_challenge, Message msg_hello_rejected_blank] =
   Some (Inr (JObj [(''pending'', JArr []), (''paired'', JArr [])]))"
  using step_challenge step_rejected_blank
  by (simp add: check_node_pairs_def on_close_def session_hello_def initial_session_def
      default_result_def)

end
